theory Spec2Isabelle
  imports Complex_Main "HOL-Library.Word" "HOL-Library.Char_ord" "HOL-Library.List_Lexorder"
begin

unbundle bit_operations_syntax

section \<open>Python values shared by the model\<close>

text \<open>
  The model follows \<^verbatim>\<open>functions.py\<close> and \<^verbatim>\<open>pyqt/window.py\<close>. Collaborators that
  are not part of the repository (the Piper engine, the ONNX runtime, the sound device,
  the file system, the voice downloader) are parameters of the functions that call them.
  A Python exception is a value: \<open>PyException\<close> stands for any instance of
  \<^verbatim>\<open>Exception\<close> and carries \<^verbatim>\<open>str(e)\<close>, \<open>PySystemExit\<close> carries the exit code, and
  \<open>PyBaseException\<close> is any other \<^verbatim>\<open>BaseException\<close>, which \<^verbatim>\<open>except Exception\<close>
  does not catch.
\<close>

datatype exit_code = NoCode | IntCode int | StrCode string

datatype py_exception = PyException string | PySystemExit exit_code | PyBaseException string

text \<open>\<^verbatim>\<open>str.isspace\<close> on the code points below 256, and \<^verbatim>\<open>str.strip()\<close>.\<close>

definition py_isspace :: "char \<Rightarrow> bool" where
  "py_isspace c =
     (let n = (of_char c :: nat)
      in (9 \<le> n \<and> n \<le> 13) \<or> (28 \<le> n \<and> n \<le> 32) \<or> n = 133 \<or> n = 160)"

definition strip :: "string \<Rightarrow> string" where
  "strip s = rev (dropWhile py_isspace (rev (dropWhile py_isspace s)))"

text \<open>\<^verbatim>\<open>str(n)\<close> for an integer, as an f-string prints it.\<close>

definition digit_char :: "nat \<Rightarrow> char" where
  "digit_char d = char_of (48 + d)"

fun str_nat :: "nat \<Rightarrow> string" where
  "str_nat n = (if n < 10 then [digit_char n] else str_nat (n div 10) @ [digit_char (n mod 10)])"

declare str_nat.simps [simp del]

definition str_int :: "int \<Rightarrow> string" where
  "str_int i = (if i < 0 then CHR ''-'' # str_nat (nat (- i)) else str_nat (nat i))"

text \<open>
  \<^verbatim>\<open>pathlib\<close> on POSIX. A path is its root (empty, \<^verbatim>\<open>/\<close> or \<^verbatim>\<open>//\<close>) and its
  components; parsing a string drops empty components and \<^verbatim>\<open>.\<close> components.
  \<open>path_div\<close> is the operator \<^verbatim>\<open>/\<close> with a string on the right (an absolute right
  operand replaces the left one), \<open>str_path\<close> is \<^verbatim>\<open>str(p)\<close>, \<open>pp_name\<close> and
  \<open>pp_suffix\<close> are \<^verbatim>\<open>p.name\<close> and \<^verbatim>\<open>p.suffix\<close>, and \<open>with_suffix\<close> raises
  ValueError for a suffix that is not one and for a path with an empty name.
  \<open>path_name\<close> is \<^verbatim>\<open>Path(s).name\<close> for a string.
\<close>

type_synonym path = string

record PurePath =
  pp_root :: string
  pp_parts :: "string list"

fun split_sep :: "string \<Rightarrow> string list" where
  "split_sep [] = [[]]"
| "split_sep (c # cs) =
     (if c = CHR ''/'' then [] # split_sep cs
      else (case split_sep cs of [] \<Rightarrow> [[c]] | x # xs \<Rightarrow> (c # x) # xs))"

definition splitroot :: "string \<Rightarrow> string" where
  "splitroot s =
     (let n = length (takeWhile (\<lambda>c. c = CHR ''/'') s)
      in if n = 0 then [] else if n = 2 then ''//'' else ''/'')"

definition parse_path :: "string \<Rightarrow> PurePath" where
  "parse_path s =
     \<lparr>pp_root = splitroot s, pp_parts = filter (\<lambda>x. x \<noteq> [] \<and> x \<noteq> ''.'') (split_sep s)\<rparr>"

definition path_div :: "PurePath \<Rightarrow> string \<Rightarrow> PurePath" where
  "path_div d name =
     (let n = parse_path name
      in if pp_root n \<noteq> [] then n
         else \<lparr>pp_root = pp_root d, pp_parts = pp_parts d @ pp_parts n\<rparr>)"

fun join_sep :: "string list \<Rightarrow> string" where
  "join_sep [] = []"
| "join_sep [x] = x"
| "join_sep (x # y # ys) = x @ ''/'' @ join_sep (y # ys)"

definition str_path :: "PurePath \<Rightarrow> path" where
  "str_path p = (let s = pp_root p @ join_sep (pp_parts p) in if s = [] then ''.'' else s)"

definition pp_name :: "PurePath \<Rightarrow> string" where
  "pp_name p = (case pp_parts p of [] \<Rightarrow> [] | _ # _ \<Rightarrow> last (pp_parts p))"

text \<open>\<^verbatim>\<open>name.rfind('.')\<close>: the index of the last dot, if there is one.\<close>

fun rfind_dot :: "string \<Rightarrow> nat option" where
  "rfind_dot [] = None"
| "rfind_dot (c # cs) =
     (case rfind_dot cs of
        Some i \<Rightarrow> Some (Suc i)
      | None \<Rightarrow> (if c = CHR ''.'' then Some 0 else None))"

definition pp_suffix :: "PurePath \<Rightarrow> string" where
  "pp_suffix p =
     (let name = pp_name p
      in case rfind_dot name of
           None \<Rightarrow> []
         | Some i \<Rightarrow> (if 0 < i \<and> i + 1 < length name then drop i name else []))"

definition quoted :: "string \<Rightarrow> string" where
  "quoted s = [char_of (39::nat)] @ s @ [char_of (39::nat)]"

definition with_suffix :: "PurePath \<Rightarrow> string \<Rightarrow> py_exception + PurePath" where
  "with_suffix p suffix =
     (if CHR ''/'' \<in> set suffix then Inl (PyException (''Invalid suffix '' @ quoted suffix))
      else if (suffix \<noteq> [] \<and> take 1 suffix \<noteq> ''.'') \<or> suffix = ''.''
      then Inl (PyException (''Invalid suffix '' @ quoted suffix))
      else
        let name = pp_name p
        in if name = []
           then Inl (PyException (''PosixPath('' @ quoted (str_path p) @ '') has an empty name''))
           else
             let old_suffix = pp_suffix p;
                 name' = (if old_suffix = [] then name @ suffix
                          else take (length name - length old_suffix) name @ suffix)
             in Inr (p\<lparr>pp_parts := butlast (pp_parts p) @ [name']\<rparr>))"

definition path_name :: "path \<Rightarrow> string" where
  "path_name s = pp_name (parse_path s)"

definition endswith :: "string \<Rightarrow> string \<Rightarrow> bool" where
  "endswith s suf = (length suf \<le> length s \<and> drop (length s - length suf) s = suf)"

section \<open>functions.py\<close>

subsection \<open>CUDA detection\<close>

text \<open>
  \<^verbatim>\<open>_CUDA_AVAILABLE\<close> is the module-level cache. The providers reported by the ONNX
  runtime are \<open>Some ps\<close>, or \<open>None\<close> when importing the runtime raises ImportError.
\<close>

definition is_cuda_available :: "string list option \<Rightarrow> bool option \<Rightarrow> bool \<times> bool option" where
  "is_cuda_available providers cache =
     (case cache of
        Some b \<Rightarrow> (b, cache)
      | None \<Rightarrow>
          (case providers of
             Some ps \<Rightarrow> (let b = (''CUDAExecutionProvider'' \<in> set ps) in (b, Some b))
           | None \<Rightarrow> (False, Some False)))"

subsection \<open>Listing and loading models\<close>

text \<open>
  \<open>list_models\<close> takes the names of the entries of \<^verbatim>\<open>MODELS_DIR\<close>; the glob
  \<^verbatim>\<open>*.onnx\<close> keeps the names that end in \<^verbatim>\<open>.onnx\<close>, \<^verbatim>\<open>sorted\<close> orders them by code
  point, and an empty result is replaced by the sentinel (\<^verbatim>\<open>models or ["No models"]\<close>).
\<close>

definition glob_onnx :: "string list \<Rightarrow> string list" where
  "glob_onnx entries = filter (\<lambda>n. endswith n ''.onnx'') entries"

definition list_models :: "string list \<Rightarrow> string list" where
  "list_models entries =
     (let models = sort (glob_onnx entries)
      in if models = [] then [''No models''] else models)"

definition get_config_path :: "PurePath \<Rightarrow> py_exception + PurePath" where
  "get_config_path model_path = with_suffix model_path (pp_suffix model_path @ ''.json'')"

text \<open>
  What \<open>load_voice_model\<close> touches outside the interpreter is recorded in a trace, in the
  order of the calls: \<^verbatim>\<open>Path.exists\<close>, \<^verbatim>\<open>PiperVoice.load\<close> and the query of the ONNX
  runtime made by \<open>is_cuda_available\<close> on a cold cache.
\<close>

datatype io_event = PathExists path | PiperLoad path path bool | OrtProviders

record 'v runtime =
  models_dir :: path
  rt_exists :: "path \<Rightarrow> py_exception + bool"
  rt_load :: "path \<Rightarrow> path \<Rightarrow> bool \<Rightarrow> py_exception + 'v"
  rt_sample_rate :: "'v \<Rightarrow> int option"
  rt_providers :: "string list option"

record world =
  cuda_cache :: "bool option"
  io_trace :: "io_event list"

text \<open>
  \<open>models_dir\<close> is the string \<^verbatim>\<open>MODELS_DIR\<close> is built from (the environment variable
  \<^verbatim>\<open>PIPER_MODELS_DIR\<close>, or \<^verbatim>\<open>models\<close>).
\<close>

definition MODELS_DIR :: "'v runtime \<Rightarrow> PurePath" where
  "MODELS_DIR rt = parse_path (models_dir rt)"

definition cuda_query :: "'v runtime \<Rightarrow> world \<Rightarrow> bool \<times> world" where
  "cuda_query rt wd =
     (let (b, c) = is_cuda_available (rt_providers rt) (cuda_cache wd)
      in (b, wd\<lparr>cuda_cache := c,
                 io_trace := io_trace wd @ (if cuda_cache wd = None then [OrtProviders] else [])\<rparr>))"

text \<open>\<^verbatim>\<open>use_cuda and is_cuda_available()\<close>: the call is made only when \<open>use_cuda\<close> holds.\<close>

definition use_cuda_and_available :: "'v runtime \<Rightarrow> bool \<Rightarrow> world \<Rightarrow> bool \<times> world" where
  "use_cuda_and_available rt use_cuda wd = (if use_cuda then cuda_query rt wd else (False, wd))"

definition path_exists :: "'v runtime \<Rightarrow> path \<Rightarrow> world \<Rightarrow> (py_exception + bool) \<times> world" where
  "path_exists rt p wd = (rt_exists rt p, wd\<lparr>io_trace := io_trace wd @ [PathExists p]\<rparr>)"

definition loaded_status :: "'v runtime \<Rightarrow> string \<Rightarrow> bool \<Rightarrow> 'v \<Rightarrow> string" where
  "loaded_status rt model_name on_cuda v =
     ''Loaded: '' @ model_name @ '' ('' @ (if on_cuda then ''CUDA'' else ''CPU'') @ '')'' @
     (case rt_sample_rate rt v of
        None \<Rightarrow> ''''
      | Some sr \<Rightarrow> (if sr = 0 then '''' else '' @ '' @ str_int sr @ '' Hz''))"

text \<open>
  The body of the \<^verbatim>\<open>try\<close> of \<open>load_voice_model\<close>: an \<^verbatim>\<open>Exception\<close> raised by the
  loader becomes \<^verbatim>\<open>(None, "Load error: ...")\<close>, any other exception escapes.
\<close>

definition try_load ::
  "'v runtime \<Rightarrow> string \<Rightarrow> path \<Rightarrow> path \<Rightarrow> bool \<Rightarrow> world
     \<Rightarrow> (py_exception + 'v option \<times> string) \<times> world" where
  "try_load rt model_name model_path cfg_path use_cuda wd =
     (let (g1, wd1) = use_cuda_and_available rt use_cuda wd;
          wd2 = wd1\<lparr>io_trace := io_trace wd1 @ [PiperLoad model_path cfg_path g1]\<rparr>
      in case rt_load rt model_path cfg_path g1 of
           Inl (PyException e) \<Rightarrow> (Inr (None, ''Load error: '' @ e), wd2)
         | Inl x \<Rightarrow> (Inl x, wd2)
         | Inr v \<Rightarrow>
             (let (g2, wd3) = use_cuda_and_available rt use_cuda wd2
              in (Inr (Some v, loaded_status rt model_name g2 v), wd3)))"

definition load_voice_model ::
  "'v runtime \<Rightarrow> string \<Rightarrow> bool \<Rightarrow> world \<Rightarrow> (py_exception + 'v option \<times> string) \<times> world" where
  "load_voice_model rt model_name use_cuda wd =
     (if model_name = ''No models'' then (Inr (None, ''No models found''), wd)
      else
        let model_path = path_div (MODELS_DIR rt) model_name
        in case get_config_path model_path of
             Inl x \<Rightarrow> (Inl x, wd)
           | Inr cfg_path \<Rightarrow>
               (let (e1, wd1) = path_exists rt (str_path model_path) wd
                in case e1 of
                     Inl x \<Rightarrow> (Inl x, wd1)
                   | Inr False \<Rightarrow> (Inr (None, ''Model not found: '' @ model_name), wd1)
                   | Inr True \<Rightarrow>
                       (let (e2, wd2) = path_exists rt (str_path cfg_path) wd1
                        in case e2 of
                             Inl x \<Rightarrow> (Inl x, wd2)
                           | Inr False \<Rightarrow>
                               (Inr (None, ''Missing config: '' @ pp_name cfg_path), wd2)
                           | Inr True \<Rightarrow>
                               try_load rt model_name (str_path model_path) (str_path cfg_path)
                                 use_cuda wd2)))"

subsection \<open>Downloading a voice\<close>

text \<open>
  The process-global \<^verbatim>\<open>sys.argv\<close>, \<^verbatim>\<open>sys.stdout\<close> and \<^verbatim>\<open>sys.stderr\<close>. A stream is
  an object: one that existed before the call, or the \<^verbatim>\<open>StringIO\<close> buffer the call
  creates. The downloader \<^verbatim>\<open>piper_dl.main\<close> runs on the redirected globals; it returns
  or raises, leaves some text in the buffer, and may itself rebind the globals.
\<close>

datatype py_stream = Stream nat | StringIO

record sys_globals =
  argv :: "string list"
  stdout :: py_stream
  stderr :: py_stream

type_synonym downloader = "sys_globals \<Rightarrow> py_exception option \<times> string \<times> sys_globals"

text \<open>\<^verbatim>\<open>(se.code or 0) == 0\<close>: a falsy code (None, 0, the empty string) counts as success.\<close>

definition exit_ok :: "exit_code \<Rightarrow> bool" where
  "exit_ok c = (case c of NoCode \<Rightarrow> True | IntCode n \<Rightarrow> n = 0 | StrCode s \<Rightarrow> s = [])"

definition download_report :: "bool \<Rightarrow> string \<Rightarrow> string \<Rightarrow> bool \<times> string" where
  "download_report ok written voice_id =
     (let text = strip written
      in if ok then (True, ''Downloaded: '' @ voice_id)
         else (False, if text = [] then ''Download failed: '' @ voice_id else text))"

definition download_voice_model ::
  "downloader \<Rightarrow> path \<Rightarrow> string \<Rightarrow> sys_globals \<Rightarrow> (py_exception + bool \<times> string) \<times> sys_globals" where
  "download_voice_model piper_dl_main data_dir voice_id g =
     (let argv0 = argv g; out0 = stdout g; err0 = stderr g;
          g1 = g\<lparr>argv := [''piper.download_voices'', voice_id, ''--data-dir'', data_dir],
                 stdout := StringIO, stderr := StringIO\<rparr>;
          (raised, written, g2) = piper_dl_main g1;
          restored = g2\<lparr>argv := argv0, stdout := out0, stderr := err0\<rparr>
      in case raised of
           None \<Rightarrow> (Inr (download_report True written voice_id), restored)
         | Some (PySystemExit code) \<Rightarrow> (Inr (download_report (exit_ok code) written voice_id), restored)
         | Some (PyException e) \<Rightarrow> (Inr (False, ''Download error: '' @ e), restored)
         | Some (PyBaseException e) \<Rightarrow> (Inl (PyBaseException e), restored))"

subsection \<open>Synthesis\<close>

text \<open>
  \<^verbatim>\<open>SynthesisConfig\<close> as the two synthesis functions build it. Python floats are
  written as reals: the functions only pass them on.
\<close>

record SynthesisConfig =
  sc_volume :: real
  length_scale :: real
  noise_scale :: real
  noise_w_scale :: real
  normalize_audio :: bool

text \<open>
  A WAV container as the \<^verbatim>\<open>wave\<close> module sees it: the three header parameters and the
  bytes of the data chunk. On closing, the writer stores the number of whole frames
  written; \<^verbatim>\<open>readframes(n)\<close> returns the bytes of \<open>n\<close> frames. The writer refuses to
  write before the number of channels and the sample width are set, so both are positive
  in a container that holds frames.
\<close>

record wav =
  framerate :: nat
  sampwidth :: nat
  nchannels :: nat
  frames :: "8 word list"

definition getnframes :: "wav \<Rightarrow> nat" where
  "getnframes w = length (frames w) div (nchannels w * sampwidth w)"

definition readframes :: "wav \<Rightarrow> nat \<Rightarrow> 8 word list" where
  "readframes w n = take (n * (nchannels w * sampwidth w)) (frames w)"

text \<open>
  \<^verbatim>\<open>np.frombuffer(raw, dtype=np.int16)\<close>: little-endian pairs of bytes; a buffer of odd
  length raises ValueError.
\<close>

fun frombuffer_int16 :: "8 word list \<Rightarrow> 16 word list option" where
  "frombuffer_int16 [] = Some []"
| "frombuffer_int16 [b] = None"
| "frombuffer_int16 (lo # hi # rest) =
     map_option (\<lambda>xs. (push_bit 8 (ucast hi) OR ucast lo) # xs) (frombuffer_int16 rest)"

definition frombuffer_error :: string where
  "frombuffer_error = ''buffer size must be a multiple of element size''"

text \<open>
  The collaborators of synthesis and playback, as they answer one call; a later call may
  meet collaborators that answer differently. \<open>synthesize_wav\<close> is
  \<^verbatim>\<open>voice.synthesize_wav(text, wf, cfg)\<close> inside \<^verbatim>\<open>with wave.open(...) as wf\<close>: it
  gives the container as it stands when the \<^verbatim>\<open>with\<close> block closes the writer, and the
  exception that left the block, if any. \<open>open_wb\<close> is opening the output path for
  writing and \<open>sd_play\<close> is \<^verbatim>\<open>sd.play\<close>; each yields the exception it raises, if any.
  \<^verbatim>\<open>sd.stop\<close> and \<^verbatim>\<open>sd.wait\<close> are taken not to raise.
\<close>

record 'v audio_env =
  synthesize_wav :: "'v \<Rightarrow> string \<Rightarrow> SynthesisConfig \<Rightarrow> wav \<times> py_exception option"
  open_wb :: "path \<Rightarrow> py_exception option"
  sd_play :: "16 word list \<Rightarrow> nat \<Rightarrow> py_exception option"

type_synonym disk = "path \<rightharpoonup> wav"

definition synthesize_to_wav ::
  "'v audio_env \<Rightarrow> 'v \<Rightarrow> string \<Rightarrow> path \<Rightarrow> real \<Rightarrow> real \<Rightarrow> real \<Rightarrow> real \<Rightarrow> bool \<Rightarrow> disk
     \<Rightarrow> (py_exception + bool \<times> string) \<times> disk" where
  "synthesize_to_wav env v text output_path vol spd nse nse_w nrm dk =
     (let cfg = \<lparr>sc_volume = vol, length_scale = spd, noise_scale = nse,
                 noise_w_scale = nse_w, normalize_audio = nrm\<rparr>
      in case open_wb env output_path of
           Some (PyException e) \<Rightarrow> (Inr (False, ''Export error: '' @ e), dk)
         | Some x \<Rightarrow> (Inl x, dk)
         | None \<Rightarrow>
             (let (w, raised) = synthesize_wav env v text cfg;
                  dk' = dk(output_path \<mapsto> w)
              in case raised of
                   None \<Rightarrow> (Inr (True, ''Saved: '' @ path_name output_path), dk')
                 | Some (PyException e) \<Rightarrow> (Inr (False, ''Export error: '' @ e), dk')
                 | Some x \<Rightarrow> (Inl x, dk')))"

text \<open>Reading a container: the frame rate and all frames as 16-bit samples.\<close>

definition read_wav :: "wav \<Rightarrow> string + 16 word list \<times> nat" where
  "read_wav w =
     (let sample_rate = framerate w;
          raw = readframes w (getnframes w)
      in case frombuffer_int16 raw of
           None \<Rightarrow> Inl frombuffer_error
         | Some audio \<Rightarrow> Inr (audio, sample_rate))"

definition synthesize_to_audio_array ::
  "'v audio_env \<Rightarrow> 'v \<Rightarrow> string \<Rightarrow> real \<Rightarrow> real \<Rightarrow> real \<Rightarrow> real \<Rightarrow> bool
     \<Rightarrow> py_exception + 16 word list option \<times> nat \<times> string" where
  "synthesize_to_audio_array env v text vol spd nse nse_w nrm =
     (let cfg = \<lparr>sc_volume = vol, length_scale = spd, noise_scale = nse,
                 noise_w_scale = nse_w, normalize_audio = nrm\<rparr>;
          (buf, raised) = synthesize_wav env v text cfg
      in case raised of
           Some (PyException e) \<Rightarrow> Inr (None, 0, ''Synthesis error: '' @ e)
         | Some x \<Rightarrow> Inl x
         | None \<Rightarrow>
             (case read_wav buf of
                Inl e \<Rightarrow> Inr (None, 0, ''Synthesis error: '' @ e)
              | Inr (audio, sample_rate) \<Rightarrow> Inr (Some audio, sample_rate, ''Success'')))"

text \<open>Reading back the file an export wrote, with the same reader.\<close>

definition read_wav_file :: "disk \<Rightarrow> path \<Rightarrow> (string + 16 word list \<times> nat) option" where
  "read_wav_file dk p = map_option read_wav (dk p)"

subsection \<open>AudioPlayer\<close>

text \<open>
  Every method returns the player after the call and the commands it sent to the sound
  device. \<open>wait\<close> is the part of the method after \<^verbatim>\<open>sd.wait()\<close> has returned.
\<close>

record AudioPlayer =
  playing :: bool
  stopped :: bool

datatype sd_command = SdPlay "16 word list" nat | SdStop | SdWait

definition AudioPlayer_init :: AudioPlayer where
  "AudioPlayer_init = \<lparr>playing = False, stopped = False\<rparr>"

definition play ::
  "'v audio_env \<Rightarrow> 16 word list \<Rightarrow> nat \<Rightarrow> AudioPlayer
     \<Rightarrow> py_exception option \<times> AudioPlayer \<times> sd_command list" where
  "play env audio_data sample_rate ap =
     (sd_play env audio_data sample_rate,
      ap\<lparr>playing := True, stopped := False\<rparr>,
      [SdPlay audio_data sample_rate])"

definition stop :: "AudioPlayer \<Rightarrow> AudioPlayer \<times> sd_command list" where
  "stop ap = (if playing ap then (ap\<lparr>stopped := True, playing := False\<rparr>, [SdStop]) else (ap, []))"

definition wait :: "AudioPlayer \<Rightarrow> bool \<times> AudioPlayer \<times> sd_command list" where
  "wait ap = (stopped ap, ap\<lparr>playing := False\<rparr>, [SdWait])"

definition is_playing :: "AudioPlayer \<Rightarrow> bool" where
  "is_playing ap = playing ap"

section \<open>pyqt/widgets.py and pyqt/window.py\<close>

subsection \<open>Widgets\<close>

text \<open>
  A \<open>FloatSlider\<close> holds its configuration and the integer position of its
  \<^verbatim>\<open>QSlider\<close>, whose range is \<open>0..steps\<close>; \<open>slider_value\<close> is the method
  \<^verbatim>\<open>value()\<close>. \<open>setValue\<close> is what moving the slider does; Qt clamps the position into
  the range. The combo box holds its items and its current text.
\<close>

record FloatSlider =
  min_val :: real
  step :: real
  steps :: int
  slider :: int

definition slider_value :: "FloatSlider \<Rightarrow> real" where
  "slider_value f = min_val f + of_int (slider f) * step f"

definition setValue :: "int \<Rightarrow> FloatSlider \<Rightarrow> FloatSlider" where
  "setValue n f = f\<lparr>slider := max 0 (min (steps f) n)\<rparr>"

record ComboBox =
  items :: "string list"
  currentText :: string

subsection \<open>Signals, tasks and the window\<close>

text \<open>
  A \<open>WorkerSignals\<close> object is the list of slots connected to each of its three
  signals. A slot is one of the callables the window connects. A task is the closure
  handed to \<^verbatim>\<open>threading.Thread\<close>, with the values it captured.
\<close>

datatype slot = On_model_loaded | On_download_complete | Export_set_status | Set_status
  | On_playback_complete

record WorkerSignals =
  finished :: "slot list"
  error :: "slot list"
  status :: "slot list"

definition WorkerSignals_init :: WorkerSignals where
  "WorkerSignals_init = \<lparr>finished = [], error = [], status = []\<rparr>"

datatype signal = Finished | Error | Status

datatype 'v sigarg = LoadResult "'v option \<times> string" | Flagged "bool \<times> string" | Str string

type_synonym 'v emission = "signal \<times> 'v sigarg"

datatype 'v task =
    LoadTask string bool
  | DownloadTask string
  | ExportTask 'v string path real real real real bool
  | PlayTask 'v string real real real real bool

datatype 'v effect = Spawn "'v task" WorkerSignals | Device sd_command

text \<open>
  The fields of \<open>MainWindow\<close> that its handlers read or write. The check box
  \<^verbatim>\<open>self.normalize\<close> is \<open>normalize_chk\<close>, the log view \<^verbatim>\<open>self.log\<close> is \<open>log_text\<close>
  (its lines), and the glyphs in front of the button texts are left out.
\<close>

record 'v MainWindow =
  voice :: "'v option"
  audio_player :: AudioPlayer
  workers :: "WorkerSignals list"
  use_cuda :: bool
  status_label :: string
  log_text :: "string list"
  play_btn :: string
  model_combo :: ComboBox
  text_edit :: string
  volume :: FloatSlider
  speed :: FloatSlider
  noise :: FloatSlider
  noise_w :: FloatSlider
  normalize_chk :: bool

definition set_status :: "string \<Rightarrow> 'v MainWindow \<Rightarrow> 'v MainWindow" where
  "set_status text w = w\<lparr>status_label := text, log_text := log_text w @ [text]\<rparr>"

definition on_model_changed :: "string \<Rightarrow> 'v MainWindow \<Rightarrow> 'v MainWindow \<times> 'v effect list" where
  "on_model_changed model_name w =
     (let w1 = set_status (''Loading: '' @ model_name @ ''...'') w;
          cuda = use_cuda w1;
          signals = WorkerSignals_init\<lparr>finished := [On_model_loaded]\<rparr>
      in (w1\<lparr>workers := workers w1 @ [signals]\<rparr>, [Spawn (LoadTask model_name cuda) signals]))"

definition on_model_loaded :: "'v option \<times> string \<Rightarrow> 'v MainWindow \<Rightarrow> 'v MainWindow" where
  "on_model_loaded result w = (let (v, msg) = result in set_status msg (w\<lparr>voice := v\<rparr>))"

text \<open>
  \<open>refresh_models\<close>: after \<^verbatim>\<open>clear()\<close> and \<^verbatim>\<open>addItems(models)\<close> the combo box shows its
  first item, unless the former text is among the new items.
\<close>

definition refresh_models :: "string list \<Rightarrow> 'v MainWindow \<Rightarrow> 'v MainWindow \<times> 'v effect list" where
  "refresh_models entries w =
     (let cur = currentText (model_combo w);
          models = list_models entries;
          shown = (if List.member models cur then cur else (case models of [] \<Rightarrow> [] | m # _ \<Rightarrow> m));
          w1 = w\<lparr>model_combo := \<lparr>items = models, currentText = shown\<rparr>\<rparr>;
          (w2, effs) = (if shown \<noteq> [] \<and> shown \<noteq> ''No models''
                        then on_model_changed shown w1 else (w1, []))
      in (set_status ''Models refreshed'' w2, effs))"

definition on_download_complete ::
  "string list \<Rightarrow> bool \<times> string \<Rightarrow> 'v MainWindow \<Rightarrow> 'v MainWindow \<times> 'v effect list" where
  "on_download_complete entries result w =
     (let (success, message) = result;
          w1 = set_status message w
      in if success then refresh_models entries w1 else (w1, []))"

text \<open>
  \<open>download_voice\<close>: \<open>dialog\<close> is the pair \<^verbatim>\<open>(voice_id, ok)\<close> that
  \<^verbatim>\<open>QInputDialog.getText\<close> returns.
\<close>

definition download_voice :: "string \<times> bool \<Rightarrow> 'v MainWindow \<Rightarrow> 'v MainWindow \<times> 'v effect list" where
  "download_voice dialog w =
     (let (voice_id, ok) = dialog
      in if \<not> ok \<or> strip voice_id = [] then (w, [])
         else
           let voice_id = strip voice_id;
               w1 = set_status (''Downloading: '' @ voice_id @ ''...'') w;
               signals = WorkerSignals_init\<lparr>finished := [On_download_complete]\<rparr>
           in (w1\<lparr>workers := workers w1 @ [signals]\<rparr>, [Spawn (DownloadTask voice_id) signals]))"

text \<open>
  \<open>export_wav\<close>: \<open>dialog\<close> is what \<^verbatim>\<open>QFileDialog.getSaveFileName\<close> returns when it is
  shown (the empty string when the user cancels).
\<close>

definition export_wav :: "path \<Rightarrow> 'v MainWindow \<Rightarrow> 'v MainWindow \<times> 'v effect list" where
  "export_wav dialog w =
     (case voice w of
        None \<Rightarrow> (set_status ''Load a voice model first'' w, [])
      | Some v \<Rightarrow>
          (let text = strip (text_edit w)
           in if text = [] then (set_status ''Enter text to speak'' w, [])
              else
                let file_path = dialog
                in if file_path = [] then (w, [])
                   else
                     let w1 = set_status ''Generating WAV...'' w;
                         task = ExportTask v text file_path
                                  (slider_value (volume w1)) (slider_value (speed w1))
                                  (slider_value (noise w1)) (slider_value (noise_w w1))
                                  (normalize_chk w1);
                         signals = WorkerSignals_init\<lparr>finished := [Export_set_status]\<rparr>
                     in (w1\<lparr>workers := workers w1 @ [signals]\<rparr>, [Spawn task signals])))"

definition play_audio :: "'v MainWindow \<Rightarrow> 'v MainWindow \<times> 'v effect list" where
  "play_audio w =
     (case voice w of
        None \<Rightarrow> (set_status ''Load a voice model first'' w, [])
      | Some v \<Rightarrow>
          (let text = strip (text_edit w)
           in if text = [] then (set_status ''Enter text to speak'' w, [])
              else
                let w1 = (set_status ''Synthesizing...'' w)\<lparr>play_btn := ''Stop''\<rparr>;
                    task = PlayTask v text
                             (slider_value (volume w1)) (slider_value (speed w1))
                             (slider_value (noise w1)) (slider_value (noise_w w1))
                             (normalize_chk w1);
                    signals = WorkerSignals_init\<lparr>status := [Set_status],
                                                  finished := [On_playback_complete]\<rparr>
                in (w1\<lparr>workers := workers w1 @ [signals]\<rparr>, [Spawn task signals])))"

definition stop_playback :: "'v MainWindow \<Rightarrow> 'v MainWindow \<times> 'v effect list" where
  "stop_playback w =
     (let (ap, cmds) = stop (audio_player w)
      in (set_status ''Stopping...'' (w\<lparr>audio_player := ap\<rparr>), map Device cmds))"

definition play_stop :: "'v MainWindow \<Rightarrow> 'v MainWindow \<times> 'v effect list" where
  "play_stop w = (if is_playing (audio_player w) then stop_playback w else play_audio w)"

definition on_playback_complete :: "bool \<times> string \<Rightarrow> 'v MainWindow \<Rightarrow> 'v MainWindow" where
  "on_playback_complete result w = (let (_, message) = result in (set_status message w)\<lparr>play_btn := ''Play''\<rparr>)"

definition closeEvent :: "'v MainWindow \<Rightarrow> 'v MainWindow \<times> 'v effect list" where
  "closeEvent w = (let (ap, cmds) = stop (audio_player w) in (w\<lparr>audio_player := ap\<rparr>, map Device cmds))"

subsection \<open>Worker threads\<close>

text \<open>
  \<open>run_worker\<close> is the function of that name in \<open>on_model_changed\<close>,
  \<^verbatim>\<open>_download_voice\<close> and \<open>export_wav\<close>: it gets what \<^verbatim>\<open>worker()\<close> did and gives the
  signals it emits, in order. An exception that is not an \<^verbatim>\<open>Exception\<close> ends the thread
  with nothing emitted. \<open>play_run_worker\<close> is the one in \<open>play_audio\<close>.
\<close>

definition run_worker :: "py_exception + 'v sigarg \<Rightarrow> 'v emission list" where
  "run_worker outcome =
     (case outcome of
        Inr result \<Rightarrow> [(Finished, result)]
      | Inl (PyException e) \<Rightarrow> [(Error, Str e)]
      | Inl _ \<Rightarrow> [])"

definition play_run_worker :: "py_exception + 'v sigarg \<Rightarrow> 'v emission list" where
  "play_run_worker outcome =
     (Status, Str ''Playing...'') #
     (case outcome of
        Inr result \<Rightarrow> [(Finished, result)]
      | Inl (PyException e) \<Rightarrow> [(Error, Str e), (Finished, Flagged (True, ''Playback error: '' @ e))]
      | Inl _ \<Rightarrow> [])"

text \<open>
  The \<^verbatim>\<open>worker()\<close> of \<open>play_audio\<close> blocks in \<^verbatim>\<open>sd.wait()\<close>, so it is two steps.
  \<open>play_worker_start\<close> runs up to the call of \<^verbatim>\<open>sd.wait()\<close>: it has returned, raised,
  or is waiting. \<open>play_worker_finish\<close> runs from the return of \<^verbatim>\<open>sd.wait()\<close>.
\<close>

datatype play_phase = Returned "bool \<times> string" | Raised py_exception | Waiting

definition play_worker_start ::
  "'v audio_env \<Rightarrow> 'v \<Rightarrow> string \<Rightarrow> real \<Rightarrow> real \<Rightarrow> real \<Rightarrow> real \<Rightarrow> bool \<Rightarrow> AudioPlayer
     \<Rightarrow> play_phase \<times> AudioPlayer \<times> sd_command list" where
  "play_worker_start env v text vol spd nse nse_w nrm ap =
     (case synthesize_to_audio_array env v text vol spd nse nse_w nrm of
        Inl x \<Rightarrow> (Raised x, ap, [])
      | Inr (None, sample_rate, msg) \<Rightarrow> (Returned (False, msg), ap, [])
      | Inr (Some audio, sample_rate, msg) \<Rightarrow>
          (case play env audio sample_rate ap of
             (Some x, ap', cmds) \<Rightarrow> (Raised x, ap', cmds)
           | (None, ap', cmds) \<Rightarrow> (Waiting, ap', cmds)))"

definition play_worker_finish :: "AudioPlayer \<Rightarrow> (bool \<times> string) \<times> AudioPlayer \<times> sd_command list" where
  "play_worker_finish ap =
     (let (stp, ap', cmds) = wait ap
      in ((stp, if stp then ''Stopped'' else ''Playback complete''), ap', cmds))"

subsection \<open>Delivery of signals to the window\<close>

definition slots_of :: "WorkerSignals \<Rightarrow> signal \<Rightarrow> slot list" where
  "slots_of sg s = (case s of Finished \<Rightarrow> finished sg | Error \<Rightarrow> error sg | Status \<Rightarrow> status sg)"

text \<open>
  A slot applied to the argument of the signal it is connected to. Each signals object is
  emitted only by its own \<open>run_worker\<close>, so a slot never meets another kind of argument;
  the last equation is there for totality.
\<close>

fun apply_slot ::
  "string list \<Rightarrow> slot \<Rightarrow> 'v sigarg \<Rightarrow> 'v MainWindow \<Rightarrow> 'v MainWindow \<times> 'v effect list" where
  "apply_slot es On_model_loaded (LoadResult r) w = (on_model_loaded r w, [])"
| "apply_slot es On_download_complete (Flagged r) w = on_download_complete es r w"
| "apply_slot es Export_set_status (Flagged r) w = (set_status (snd r) w, [])"
| "apply_slot es Set_status (Str s) w = (set_status s w, [])"
| "apply_slot es On_playback_complete (Flagged r) w = (on_playback_complete r w, [])"
| "apply_slot es _ _ w = (w, [])"

fun run_slots ::
  "string list \<Rightarrow> slot list \<Rightarrow> 'v sigarg \<Rightarrow> 'v MainWindow \<Rightarrow> 'v MainWindow \<times> 'v effect list" where
  "run_slots es [] a w = (w, [])"
| "run_slots es (sl # sls) a w =
     (let (w1, e1) = apply_slot es sl a w;
          (w2, e2) = run_slots es sls a w1
      in (w2, e1 @ e2))"

fun deliver ::
  "string list \<Rightarrow> WorkerSignals \<Rightarrow> 'v emission list \<Rightarrow> 'v MainWindow \<Rightarrow> 'v MainWindow \<times> 'v effect list" where
  "deliver es sg [] w = (w, [])"
| "deliver es sg (em # ems) w =
     (let (w1, e1) = run_slots es (slots_of sg (fst em)) (snd em) w;
          (w2, e2) = deliver es sg ems w1
      in (w2, e1 @ e2))"

text \<open>
  The terminal results a thread hands to the interactive thread: the slot calls made for
  its \<open>finished\<close> and \<open>error\<close> emissions (\<open>status\<close> carries progress only).
\<close>

definition terminal_deliveries :: "WorkerSignals \<Rightarrow> 'v emission list \<Rightarrow> nat" where
  "terminal_deliveries sg ems =
     sum_list (map (\<lambda>em. case fst em of Status \<Rightarrow> 0 | s \<Rightarrow> length (slots_of sg s)) ems)"

subsection \<open>The application as a whole\<close>

text \<open>
  The collaborators, and the state outside the window that the threads read and write:
  the module globals of \<^verbatim>\<open>functions.py\<close>, the files written, the commands sent to the
  sound device and the globals of \<^verbatim>\<open>sys\<close>. \<open>dir_entries\<close> are the names found in
  \<^verbatim>\<open>MODELS_DIR\<close> when it is listed.
\<close>

record 'v env =
  rt :: "'v runtime"
  au :: "'v audio_env"
  dl_main :: downloader
  dir_entries :: "string list"

record 'v sys =
  win :: "'v MainWindow"
  wld :: world
  dsk :: disk
  sd_log :: "sd_command list"
  sys_glob :: sys_globals

fun device_commands :: "'v effect list \<Rightarrow> sd_command list" where
  "device_commands [] = []"
| "device_commands (Device c # effs) = c # device_commands effs"
| "device_commands (Spawn t sg # effs) = device_commands effs"

text \<open>A handler of the window run on the interactive thread.\<close>

definition handle ::
  "('v MainWindow \<Rightarrow> 'v MainWindow \<times> 'v effect list) \<Rightarrow> 'v sys \<Rightarrow> 'v sys \<times> 'v effect list" where
  "handle h s =
     (let (w, effs) = h (win s)
      in (s\<lparr>win := w, sd_log := sd_log s @ device_commands effs\<rparr>, effs))"

text \<open>
  The target of a thread run from start to end: the signals it emits and the state it
  leaves. The playback thread is run here without another thread in between its two
  steps.
\<close>

fun thread_body :: "'v env \<Rightarrow> 'v task \<Rightarrow> 'v sys \<Rightarrow> 'v emission list \<times> 'v sys" where
  "thread_body env (LoadTask model_name cuda) s =
     (let (r, wd) = load_voice_model (rt env) model_name cuda (wld s)
      in (run_worker (map_sum (\<lambda>x. x) LoadResult r), s\<lparr>wld := wd\<rparr>))"
| "thread_body env (DownloadTask voice_id) s =
     (let (r, g) = download_voice_model (dl_main env) (str_path (MODELS_DIR (rt env))) voice_id (sys_glob s)
      in (run_worker (map_sum (\<lambda>x. x) Flagged r), s\<lparr>sys_glob := g\<rparr>))"
| "thread_body env (ExportTask v text file_path vol spd nse nse_w nrm) s =
     (let (r, dk) = synthesize_to_wav (au env) v text file_path vol spd nse nse_w nrm (dsk s)
      in (run_worker (map_sum (\<lambda>x. x) Flagged r), s\<lparr>dsk := dk\<rparr>))"
| "thread_body env (PlayTask v text vol spd nse nse_w nrm) s =
     (case play_worker_start (au env) v text vol spd nse nse_w nrm (audio_player (win s)) of
        (Returned r, ap, cmds) \<Rightarrow>
          (play_run_worker (Inr (Flagged r)),
           s\<lparr>win := (win s)\<lparr>audio_player := ap\<rparr>, sd_log := sd_log s @ cmds\<rparr>)
      | (Raised x, ap, cmds) \<Rightarrow>
          (play_run_worker (Inl x),
           s\<lparr>win := (win s)\<lparr>audio_player := ap\<rparr>, sd_log := sd_log s @ cmds\<rparr>)
      | (Waiting, ap, cmds) \<Rightarrow>
          (let (r, ap', cmds') = play_worker_finish ap
           in (play_run_worker (Inr (Flagged r)),
               s\<lparr>win := (win s)\<lparr>audio_player := ap'\<rparr>, sd_log := sd_log s @ cmds @ cmds'\<rparr>)))"

text \<open>
  A spawned thread runs to its end and the interactive thread then handles what it
  emitted. \<open>complete_all\<close> does so for a list of threads, in the order of the list.
\<close>

fun thread_done :: "'v env \<Rightarrow> 'v effect \<Rightarrow> 'v sys \<Rightarrow> 'v sys \<times> 'v effect list" where
  "thread_done env (Spawn t sg) s =
     (let (ems, s1) = thread_body env t s;
          (w, effs) = deliver (dir_entries env) sg ems (win s1)
      in (s1\<lparr>win := w, sd_log := sd_log s1 @ device_commands effs\<rparr>, effs))"
| "thread_done env (Device c) s = (s, [])"

fun complete_all :: "'v env \<Rightarrow> 'v effect list \<Rightarrow> 'v sys \<Rightarrow> 'v sys" where
  "complete_all env [] s = s"
| "complete_all env (eff # effs) s = complete_all env effs (fst (thread_done env eff s))"

text \<open>What a task produces: its emissions, the files and the device commands after it.\<close>

definition task_output ::
  "'v env \<Rightarrow> 'v task \<Rightarrow> 'v sys \<Rightarrow> 'v emission list \<times> disk \<times> sd_command list" where
  "task_output env t s = (let (ems, s') = thread_body env t s in (ems, dsk s', sd_log s'))"

text \<open>The synthesis parameters a task carries.\<close>

fun task_params :: "'v task \<Rightarrow> (real \<times> real \<times> real \<times> real \<times> bool) option" where
  "task_params (ExportTask v text file_path vol spd nse nse_w nrm) = Some (vol, spd, nse, nse_w, nrm)"
| "task_params (PlayTask v text vol spd nse nse_w nrm) = Some (vol, spd, nse, nse_w, nrm)"
| "task_params _ = None"

text \<open>What the user can change in the window while a task runs.\<close>

datatype ui_change = MoveVolume int | MoveSpeed int | MoveNoise int | MoveNoiseW int
  | CheckNormalize bool | EditText string

fun apply_change :: "ui_change \<Rightarrow> 'v MainWindow \<Rightarrow> 'v MainWindow" where
  "apply_change (MoveVolume n) w = w\<lparr>volume := setValue n (volume w)\<rparr>"
| "apply_change (MoveSpeed n) w = w\<lparr>speed := setValue n (speed w)\<rparr>"
| "apply_change (MoveNoise n) w = w\<lparr>noise := setValue n (noise w)\<rparr>"
| "apply_change (MoveNoiseW n) w = w\<lparr>noise_w := setValue n (noise_w w)\<rparr>"
| "apply_change (CheckNormalize b) w = w\<lparr>normalize_chk := b\<rparr>"
| "apply_change (EditText t) w = w\<lparr>text_edit := t\<rparr>"

section \<open>Example values\<close>

text \<open>
  A window with a voice loaded, the text \<^verbatim>\<open>hi\<close> and an idle player; a container of
  two mono 16-bit frames at 22050 Hz, and an engine that writes it.
\<close>

definition idle_window :: "nat MainWindow" where
  "idle_window =
     \<lparr>voice = Some 1, audio_player = AudioPlayer_init, workers = [], use_cuda = False,
      status_label = ''Ready'', log_text = [], play_btn = ''Play'',
      model_combo = \<lparr>items = [''a.onnx'', ''b.onnx''], currentText = ''a.onnx''\<rparr>,
      text_edit = ''hi'',
      volume = \<lparr>min_val = 0, step = 1/100, steps = 100, slider = 100\<rparr>,
      speed = \<lparr>min_val = 1/2, step = 1/100, steps = 150, slider = 50\<rparr>,
      noise = \<lparr>min_val = 0, step = 1/100, steps = 150, slider = 66\<rparr>,
      noise_w = \<lparr>min_val = 0, step = 1/100, steps = 150, slider = 80\<rparr>,
      normalize_chk = False\<rparr>"

definition demo_wav :: wav where
  "demo_wav = \<lparr>framerate = 22050, sampwidth = 2, nchannels = 1, frames = [1, 0, 2, 0]\<rparr>"

definition demo_audio :: "nat audio_env" where
  "demo_audio = \<lparr>synthesize_wav = (\<lambda>v t c. (demo_wav, None)), open_wb = (\<lambda>p. None),
                  sd_play = (\<lambda>a r. None)\<rparr>"

text \<open>
  A models directory with the two voices \<^verbatim>\<open>a.onnx\<close> and \<^verbatim>\<open>b.onnx\<close> and their
  configurations, a loader that gives voice 10 for the first and voice 20 for the second,
  and a system that starts from the example window.
\<close>

definition demo_rt :: "nat runtime" where
  "demo_rt =
     \<lparr>models_dir = ''models'',
      rt_exists = (\<lambda>p. Inr (p \<in> set [''models/a.onnx'', ''models/a.onnx.json'',
                                          ''models/b.onnx'', ''models/b.onnx.json''])),
      rt_load = (\<lambda>p c g. if p = ''models/a.onnx'' then Inr 10 else Inr 20),
      rt_sample_rate = (\<lambda>v. Some 22050),
      rt_providers = Some [''CPUExecutionProvider'']\<rparr>"

definition demo_env :: "nat env" where
  "demo_env =
     \<lparr>rt = demo_rt, au = demo_audio, dl_main = (\<lambda>g. (None, [], g)),
      dir_entries = [''a.onnx'', ''a.onnx.json'', ''b.onnx'', ''b.onnx.json'']\<rparr>"

definition demo_sys :: "nat sys" where
  "demo_sys =
     \<lparr>win = idle_window, wld = \<lparr>cuda_cache = None, io_trace = []\<rparr>, dsk = Map.empty,
      sd_log = [],
      sys_glob = \<lparr>argv = [''app.py''], stdout = Stream 1, stderr = Stream 2\<rparr>\<rparr>"

text \<open>
  The example collaborators with a models directory that may not be searched:
  \<^verbatim>\<open>Path.exists\<close> raises PermissionError.
\<close>

definition denied_env :: "nat env" where
  "denied_env =
     demo_env\<lparr>rt := demo_rt\<lparr>rt_exists := (\<lambda>p. Inl (PyException ''[Errno 13] Permission denied''))\<rparr>\<rparr>"

text \<open>
  Two more answers of the engine: a container with one frame more than the first one,
  and a container of the same shape as the first one with other samples.
\<close>

definition longer_wav :: wav where
  "longer_wav = \<lparr>framerate = 22050, sampwidth = 2, nchannels = 1, frames = [1, 0, 2, 0, 3, 0]\<rparr>"

definition other_wav :: wav where
  "other_wav = \<lparr>framerate = 22050, sampwidth = 2, nchannels = 1, frames = [3, 0, 4, 0]\<rparr>"

definition demo_audio_longer :: "nat audio_env" where
  "demo_audio_longer = demo_audio\<lparr>synthesize_wav := (\<lambda>v t c. (longer_wav, None))\<rparr>"

definition demo_audio_other :: "nat audio_env" where
  "demo_audio_other = demo_audio\<lparr>synthesize_wav := (\<lambda>v t c. (other_wav, None))\<rparr>"

section \<open>Properties\<close>

subsection \<open>Downloading a voice restores the globals\<close>

lemma download_globals:
  "snd (download_voice_model m d v g) =
     (snd (snd (m (g\<lparr>argv := [''piper.download_voices'', v, ''--data-dir'', d],
                      stdout := StringIO, stderr := StringIO\<rparr>))))
       \<lparr>argv := argv g, stdout := stdout g, stderr := stderr g\<rparr>"
  by (simp add: download_voice_model_def Let_def split: prod.splits option.splits py_exception.splits)

text \<open>
  Claim C10. \<open>download_voice_model\<close> leaves \<^verbatim>\<open>sys.argv\<close>, \<^verbatim>\<open>sys.stdout\<close> and
  \<^verbatim>\<open>sys.stderr\<close> as they were before the call, whatever the downloader does: it may
  return, raise \<^verbatim>\<open>SystemExit\<close> with any code, raise an \<^verbatim>\<open>Exception\<close> or any other
  exception, and may rebind the three globals itself.
\<close>

theorem download_voice_model_restores_globals:
  "argv (snd (download_voice_model piper_dl_main data_dir voice_id g)) = argv g \<and>
   stdout (snd (download_voice_model piper_dl_main data_dir voice_id g)) = stdout g \<and>
   stderr (snd (download_voice_model piper_dl_main data_dir voice_id g)) = stderr g"
  by (simp add: download_globals)

subsection \<open>Paths of the examples\<close>

lemmas path_defs = MODELS_DIR_def path_div_def parse_path_def splitroot_def str_path_def
  pp_name_def pp_suffix_def with_suffix_def get_config_path_def path_name_def quoted_def

lemma demo_model_paths:
  "str_path (path_div (parse_path ''models'') ''a.onnx'') = ''models/a.onnx''"
  "str_path (path_div (parse_path ''models'') ''b.onnx'') = ''models/b.onnx''"
  "str_path (path_div (parse_path ''models'') ''c.onnx'') = ''models/c.onnx''"
  "str_path (path_div (parse_path ''models'') ''missing.onnx'') = ''models/missing.onnx''"
  by (simp_all add: path_defs)

lemma demo_config_paths:
  "get_config_path (path_div (parse_path ''models'') ''a.onnx'')
     = Inr \<lparr>pp_root = [], pp_parts = [''models'', ''a.onnx.json'']\<rparr>"
  "get_config_path (path_div (parse_path ''models'') ''b.onnx'')
     = Inr \<lparr>pp_root = [], pp_parts = [''models'', ''b.onnx.json'']\<rparr>"
  "get_config_path (path_div (parse_path ''models'') ''c.onnx'')
     = Inr \<lparr>pp_root = [], pp_parts = [''models'', ''c.onnx.json'']\<rparr>"
  "get_config_path (path_div (parse_path ''models'') ''missing.onnx'')
     = Inr \<lparr>pp_root = [], pp_parts = [''models'', ''missing.onnx.json'']\<rparr>"
  by (simp_all add: path_defs)

lemma demo_config_strs:
  "str_path \<lparr>pp_root = [], pp_parts = [''models'', ''a.onnx.json'']\<rparr> = ''models/a.onnx.json''"
  "str_path \<lparr>pp_root = [], pp_parts = [''models'', ''b.onnx.json'']\<rparr> = ''models/b.onnx.json''"
  "str_path \<lparr>pp_root = [], pp_parts = [''models'', ''c.onnx.json'']\<rparr> = ''models/c.onnx.json''"
  by (simp_all add: str_path_def)

lemma demo_path_names:
  "path_name ''out.wav'' = ''out.wav''"
  "path_name ''out/speech.wav'' = ''speech.wav''"
  by (simp_all add: path_defs)

text \<open>
  A model name without a final component, such as \<^verbatim>\<open>/\<close>, makes \<open>get_config_path\<close>
  raise before anything is looked up.
\<close>

lemma load_voice_model_empty_name:
  "load_voice_model r ''/'' c wd =
     (Inl (PyException (''PosixPath('' @ quoted ''/'' @ '') has an empty name'')), wd)"
  by (simp add: load_voice_model_def path_defs)

subsection \<open>The sentinel of the model list\<close>

lemma list_models_nonempty: "list_models entries \<noteq> []"
  by (simp add: list_models_def Let_def)

text \<open>
  Claim C9. \<open>list_models\<close> never returns the empty list; when no entry of the models
  directory ends in \<^verbatim>\<open>.onnx\<close> it returns the one sentinel \<^verbatim>\<open>"No models"\<close>; and
  \<open>load_voice_model\<close> called with the sentinel returns \<^verbatim>\<open>(None, "No models found")\<close>
  and leaves the world as it was: the trace gains no \<^verbatim>\<open>Path.exists\<close>, no load and no
  query of the runtime.
\<close>

theorem list_models_sentinel:
  "list_models entries \<noteq> [] \<and>
   (glob_onnx entries = [] \<longrightarrow> list_models entries = [''No models'']) \<and>
   load_voice_model r ''No models'' cuda wd = (Inr (None, ''No models found''), wd)"
  by (simp add: list_models_nonempty) (simp add: list_models_def load_voice_model_def)

theorem list_models_sentinel_witness:
  "glob_onnx [''readme.txt'', ''voice.onnx.json''] = [] \<and>
   list_models [''readme.txt'', ''voice.onnx.json''] = [''No models''] \<and>
   fst (load_voice_model
          \<lparr>models_dir = ''models'', rt_exists = (\<lambda>p. Inr True),
           rt_load = (\<lambda>p c g. Inr (1::nat)), rt_sample_rate = (\<lambda>v. Some 22050),
           rt_providers = None\<rparr>
          ''No models'' True \<lparr>cuda_cache = None, io_trace = []\<rparr>) = Inr (None, ''No models found'')"
proof -
  have g: "glob_onnx [''readme.txt'', ''voice.onnx.json''] = []"
    by (simp add: glob_onnx_def endswith_def)
  from g list_models_sentinel [of "[''readme.txt'', ''voice.onnx.json'']"
      "\<lparr>models_dir = ''models'', rt_exists = (\<lambda>p. Inr True),
           rt_load = (\<lambda>p c g. Inr (1::nat)), rt_sample_rate = (\<lambda>v. Some 22050),
           rt_providers = None\<rparr>" True "\<lparr>cuda_cache = None, io_trace = []\<rparr>"]
  show ?thesis by simp
qed


subsection \<open>Export and synthesis in memory\<close>

lemma demo_read: "read_wav demo_wav = Inr ([1, 2], 22050)"
  by (simp add: read_wav_def demo_wav_def getnframes_def readframes_def)

lemma frombuffer_same_length:
  "length xs = length ys \<Longrightarrow> frombuffer_int16 xs = Some a \<Longrightarrow>
     \<exists>b. frombuffer_int16 ys = Some b \<and> length b = length a"
proof (induction xs arbitrary: ys a rule: frombuffer_int16.induct)
  case 1
  then show ?case by simp
next
  case (2 b)
  then show ?case by simp
next
  case (3 lo hi rest)
  from "3.prems"(1) obtain lo' hi' rest' where ys: "ys = lo' # hi' # rest'" and l: "length rest = length rest'"
    by (cases ys; cases "tl ys") auto
  from "3.prems"(2) obtain a0 where a0: "frombuffer_int16 rest = Some a0" and a: "length a = Suc (length a0)"
    by (auto)
  from "3.IH" [OF l a0] obtain b0 where "frombuffer_int16 rest' = Some b0" "length b0 = length a0"
    by blast
  with ys a show ?case by simp
qed

lemma read_wav_same_shape:
  assumes "framerate w' = framerate w" "sampwidth w' = sampwidth w" "nchannels w' = nchannels w"
    "length (frames w') = length (frames w)"
    and "read_wav w = Inr (a, r)"
  shows "\<exists>a'. read_wav w' = Inr (a', r) \<and> length a' = length a"
proof -
  from assms(5) obtain fa where fa: "frombuffer_int16 (readframes w (getnframes w)) = Some a"
    and r: "r = framerate w"
    by (auto simp: read_wav_def Let_def split: option.splits)
  have "length (readframes w (getnframes w)) = length (readframes w' (getnframes w'))"
    using assms(1-4) by (simp add: readframes_def getnframes_def)
  from frombuffer_same_length [OF this fa] obtain b where
    "frombuffer_int16 (readframes w' (getnframes w')) = Some b" "length b = length a" by blast
  then show ?thesis using r assms(1) by (simp add: read_wav_def Let_def)
qed

text \<open>
  Claim C5, as the code has it. \<open>synthesize_to_wav\<close> and \<open>synthesize_to_audio_array\<close>
  are two calls of the engine, and nothing in the code makes the engine answer both
  alike: \<open>env\<close> is the engine at the export and \<open>env'\<close> the engine at the synthesis in
  memory. Both hand it the same configuration, built from their parameters in the same
  way. When the export reports success, and the engine answers the second call without
  raising and with a container of the same frame rate, sample width, number of channels
  and number of data bytes, then reading back the exported file gives as many samples, at
  the same rate, as the synthesis in memory returns. The samples themselves may differ.
\<close>

theorem export_roundtrip_when_engine_agrees:
  assumes "synthesize_to_wav env v tx p vol spd nse nw nrm dk = (Inr (True, msg), dk')"
    and "read_wav_file dk' p = Some (Inr (audio, rate))"
    and "cfg = \<lparr>sc_volume = vol, length_scale = spd, noise_scale = nse,
                 noise_w_scale = nw, normalize_audio = nrm\<rparr>"
    and "snd (synthesize_wav env' v tx cfg) = None"
    and "framerate (fst (synthesize_wav env' v tx cfg)) = framerate (fst (synthesize_wav env v tx cfg))"
    and "sampwidth (fst (synthesize_wav env' v tx cfg)) = sampwidth (fst (synthesize_wav env v tx cfg))"
    and "nchannels (fst (synthesize_wav env' v tx cfg)) = nchannels (fst (synthesize_wav env v tx cfg))"
    and "length (frames (fst (synthesize_wav env' v tx cfg)))
           = length (frames (fst (synthesize_wav env v tx cfg)))"
  shows "\<exists>audio'. synthesize_to_audio_array env' v tx vol spd nse nw nrm
                      = Inr (Some audio', rate, ''Success'') \<and>
                   length audio' = length audio"
proof -
  let ?w = "fst (synthesize_wav env v tx cfg)"
  let ?w' = "fst (synthesize_wav env' v tx cfg)"
  from assms(1) have dk': "dk' p = Some ?w"
    by (auto simp: synthesize_to_wav_def Let_def assms(3)
        split: option.splits py_exception.splits prod.splits if_splits)
  with assms(2) have rw: "read_wav ?w = Inr (audio, rate)"
    by (simp add: read_wav_file_def)
  from read_wav_same_shape [OF assms(5-8) rw] obtain a' where
    a': "read_wav ?w' = Inr (a', rate)" "length a' = length audio" by blast
  have "synthesize_to_audio_array env' v tx vol spd nse nw nrm = Inr (Some a', rate, ''Success'')"
  proof (cases "synthesize_wav env' v tx cfg")
    case (Pair w' r')
    with assms(4) a'(1) show ?thesis
      by (simp add: synthesize_to_audio_array_def Let_def assms(3) [symmetric])
  qed
  with a'(2) show ?thesis by blast
qed

lemma other_read: "read_wav other_wav = Inr ([3, 4], 22050)"
  by (simp add: read_wav_def other_wav_def getnframes_def readframes_def)

lemma longer_read: "read_wav longer_wav = Inr ([1, 2, 3], 22050)"
  by (simp add: read_wav_def longer_wav_def getnframes_def readframes_def)

lemma demo_export_speech:
  "synthesize_to_wav demo_audio 1 ''hi'' ''out/speech.wav'' 1 1 (667/1000) (8/10) False Map.empty
     = (Inr (True, ''Saved: speech.wav''), [''out/speech.wav'' \<mapsto> demo_wav])"
  by (simp add: synthesize_to_wav_def demo_audio_def demo_path_names)

lemma demo_read_back:
  "read_wav_file [''out/speech.wav'' \<mapsto> demo_wav] ''out/speech.wav'' = Some (Inr ([1, 2], 22050))"
  by (simp add: read_wav_file_def demo_read)

theorem export_roundtrip_when_engine_agrees_witness:
  "synthesize_to_wav demo_audio 1 ''hi'' ''out/speech.wav'' 1 1 (667/1000) (8/10) False Map.empty
     = (Inr (True, ''Saved: speech.wav''), [''out/speech.wav'' \<mapsto> demo_wav]) \<and>
   read_wav_file [''out/speech.wav'' \<mapsto> demo_wav] ''out/speech.wav'' = Some (Inr ([1, 2], 22050)) \<and>
   synthesize_to_audio_array demo_audio_other 1 ''hi'' 1 1 (667/1000) (8/10) False
     = Inr (Some [3, 4], 22050, ''Success'') \<and>
   (\<exists>audio'. synthesize_to_audio_array demo_audio_other 1 ''hi'' 1 1 (667/1000) (8/10) False
                 = Inr (Some audio', 22050, ''Success'') \<and> length audio' = length [1::16 word, 2])"
proof -
  have d: "synthesize_to_audio_array demo_audio_other 1 ''hi'' 1 1 (667/1000) (8/10) False
     = Inr (Some [3, 4], 22050, ''Success'')"
    by (simp add: synthesize_to_audio_array_def demo_audio_other_def demo_audio_def other_read)
  have e: "\<exists>audio'. synthesize_to_audio_array demo_audio_other 1 ''hi'' 1 1 (667/1000) (8/10) False
                 = Inr (Some audio', 22050, ''Success'') \<and> length audio' = length [1::16 word, 2]"
    by (rule export_roundtrip_when_engine_agrees [OF demo_export_speech demo_read_back refl])
       (simp_all add: demo_audio_other_def demo_audio_def other_wav_def demo_wav_def)
  from demo_export_speech demo_read_back d e show ?thesis by (intro conjI)
qed

text \<open>
  Claim C5 as stated fails: for the same voice, text and parameters the engine answers
  the export with two frames and the synthesis in memory with three (as an engine that
  draws noise for the durations may). The file reads back to two samples, the array has
  three.
\<close>

theorem export_and_direct_synthesis_differ:
  "synthesize_to_wav demo_audio 1 ''hi'' ''out/speech.wav'' 1 1 (667/1000) (8/10) False Map.empty
     = (Inr (True, ''Saved: speech.wav''), [''out/speech.wav'' \<mapsto> demo_wav]) \<and>
   read_wav_file [''out/speech.wav'' \<mapsto> demo_wav] ''out/speech.wav'' = Some (Inr ([1, 2], 22050)) \<and>
   synthesize_to_audio_array demo_audio_longer 1 ''hi'' 1 1 (667/1000) (8/10) False
     = Inr (Some [1, 2, 3], 22050, ''Success'') \<and>
   length [1::16 word, 2] \<noteq> length [1::16 word, 2, 3]"
proof -
  have d: "synthesize_to_audio_array demo_audio_longer 1 ''hi'' 1 1 (667/1000) (8/10) False
     = Inr (Some [1, 2, 3], 22050, ''Success'')"
    by (simp add: synthesize_to_audio_array_def demo_audio_longer_def demo_audio_def longer_read)
  from demo_export_speech demo_read_back d show ?thesis by simp
qed

subsection \<open>Stopping while idle\<close>

text \<open>
  Claim C6, as the code has it. While the player is idle, \<open>AudioPlayer.stop\<close> and
  \<open>closeEvent\<close> change nothing and send no command to the device. \<open>stop_playback\<close>
  also leaves the player alone and sends no command, but it does set the status to
  \<^verbatim>\<open>Stopping...\<close>; the play/stop button does not reach it while idle, it starts
  playback instead.
\<close>

theorem stop_while_idle:
  "\<not> is_playing (audio_player w) \<Longrightarrow>
     stop (audio_player w) = (audio_player w, []) \<and>
     closeEvent w = (w, []) \<and>
     stop_playback w = (set_status ''Stopping...'' w, []) \<and>
     play_stop w = play_audio w"
  by (simp add: is_playing_def stop_def closeEvent_def stop_playback_def play_stop_def)

theorem stop_while_idle_witness:
  "\<not> is_playing (audio_player idle_window) \<and>
   stop (audio_player idle_window) = (audio_player idle_window, []) \<and>
   closeEvent idle_window = (idle_window, []) \<and>
   stop_playback idle_window = (set_status ''Stopping...'' idle_window, []) \<and>
   play_stop idle_window = play_audio idle_window"
proof -
  have i: "\<not> is_playing (audio_player idle_window)"
    by (simp add: is_playing_def idle_window_def AudioPlayer_init_def)
  from i stop_while_idle [OF i] show ?thesis by simp
qed

text \<open>
  Claim C6 as stated fails: called on the idle example window, \<open>stop_playback\<close> emits a
  status event, so the log is no longer what it was.
\<close>

theorem stop_while_idle_emits_status:
  "\<not> is_playing (audio_player idle_window) \<and>
   log_text (fst (stop_playback idle_window)) = [''Stopping...''] \<and>
   log_text (fst (stop_playback idle_window)) \<noteq> log_text idle_window"
  by (simp add: idle_window_def stop_playback_def stop_def AudioPlayer_init_def set_status_def
      is_playing_def)

subsection \<open>Overlapping loads\<close>

lemma complete_all_append:
  "complete_all env (xs @ ys) s = complete_all env ys (complete_all env xs s)"
  by (induction xs arbitrary: s) simp_all

lemma on_model_changed_spawn:
  "snd (on_model_changed n w) =
     [Spawn (LoadTask n (use_cuda w)) (WorkerSignals_init\<lparr>finished := [On_model_loaded]\<rparr>)]"
  by (simp add: on_model_changed_def Let_def set_status_def)

lemma load_thread_done_win:
  "win (fst (thread_done env (Spawn (LoadTask n c) (WorkerSignals_init\<lparr>finished := [On_model_loaded]\<rparr>)) s)) =
     (case fst (load_voice_model (rt env) n c (wld s)) of
        Inr r \<Rightarrow> on_model_loaded r (win s)
      | Inl x \<Rightarrow> win s)"
  by (simp add: run_worker_def slots_of_def WorkerSignals_init_def
      split: prod.splits sum.splits py_exception.splits)

lemma load_completion_voice:
  "voice (win (complete_all env (ts @ snd (on_model_changed n w)) s)) =
     (case fst (load_voice_model (rt env) n (use_cuda w) (wld (complete_all env ts s))) of
        Inr (v, msg) \<Rightarrow> v
      | Inl x \<Rightarrow> voice (win (complete_all env ts s)))"
proof -
  have "complete_all env (ts @ snd (on_model_changed n w)) s =
          fst (thread_done env
                (Spawn (LoadTask n (use_cuda w)) (WorkerSignals_init\<lparr>finished := [On_model_loaded]\<rparr>))
                (complete_all env ts s))"
    by (simp add: complete_all_append on_model_changed_spawn del: thread_done.simps)
  then show ?thesis
    by (simp add: load_thread_done_win on_model_loaded_def set_status_def
        del: thread_done.simps split: sum.splits prod.splits)
qed

text \<open>
  Claim C1, as the code has it. The thread started by \<open>on_model_changed\<close> carries the
  model name and the CUDA flag and nothing else: no sequence number is stamped or
  compared. Whatever threads \<open>ts\<close> completed before it, when a load thread completes
  the current voice becomes the result of that thread (the voice, or None when the load
  failed); it stays as it was only when the load raised. So after all loads the window
  holds the result of the load that completed last.
\<close>

theorem last_completed_load_wins:
  "snd (on_model_changed n w) =
     [Spawn (LoadTask n (use_cuda w)) (WorkerSignals_init\<lparr>finished := [On_model_loaded]\<rparr>)] \<and>
   voice (win (complete_all env (ts @ snd (on_model_changed n w)) s)) =
     (case fst (load_voice_model (rt env) n (use_cuda w) (wld (complete_all env ts s))) of
        Inr (v, msg) \<Rightarrow> v
      | Inl x \<Rightarrow> voice (win (complete_all env ts s)))"
  using on_model_changed_spawn [of n w] load_completion_voice [of env ts n w s] by simp

lemma demo_load_a:
  "fst (load_voice_model demo_rt ''a.onnx'' False wd) = Inr (Some 10, loaded_status demo_rt ''a.onnx'' False 10)"
  by (simp add: load_voice_model_def MODELS_DIR_def demo_rt_def demo_model_paths
      demo_config_paths demo_config_strs path_exists_def try_load_def use_cuda_and_available_def
      Let_def)

lemma demo_load_b:
  "fst (load_voice_model demo_rt ''b.onnx'' False wd) = Inr (Some 20, loaded_status demo_rt ''b.onnx'' False 20)"
  by (simp add: load_voice_model_def MODELS_DIR_def demo_rt_def demo_model_paths
      demo_config_paths demo_config_strs path_exists_def try_load_def use_cuda_and_available_def
      Let_def)

lemma demo_env_rt: "rt demo_env = demo_rt"
  by (simp add: demo_env_def)

lemma handle_on_model_changed:
  "handle (on_model_changed n) s =
     (s\<lparr>win := fst (on_model_changed n (win s))\<rparr>, snd (on_model_changed n (win s)))"
  by (simp add: handle_def on_model_changed_def Let_def)

lemma use_cuda_on_model_changed: "use_cuda (fst (on_model_changed n w)) = use_cuda w"
  by (simp add: on_model_changed_def Let_def set_status_def)

text \<open>
  Claim C1 as stated fails: \<^verbatim>\<open>a.onnx\<close> is requested, then \<^verbatim>\<open>b.onnx\<close>, and both
  loads succeed. When the load of \<^verbatim>\<open>b.onnx\<close> completes first, the window ends with
  voice 10, the result of the first request; in the other order it ends with voice 20.
\<close>

theorem stale_load_overwrites_newer:
  "(let (s1, e1) = handle (on_model_changed ''a.onnx'') demo_sys;
        (s2, e2) = handle (on_model_changed ''b.onnx'') s1
    in voice (win (complete_all demo_env (e2 @ e1) s2)) = Some 10 \<and>
       voice (win (complete_all demo_env (e1 @ e2) s2)) = Some 20)"
proof -
  have u: "use_cuda (win demo_sys) = False" by (simp add: demo_sys_def idle_window_def)
  show ?thesis
    by (simp add: handle_on_model_changed load_completion_voice demo_env_rt u
        use_cuda_on_model_changed demo_load_a demo_load_b
        del: complete_all.simps thread_done.simps)
qed

subsection \<open>Failed loads\<close>

lemma cuda_flag_trace:
  "fst (use_cuda_and_available r c (wd\<lparr>io_trace := t\<rparr>)) = fst (use_cuda_and_available r c wd)"
  by (simp add: use_cuda_and_available_def cuda_query_def is_cuda_available_def Let_def
      split: option.splits prod.splits)

lemma try_load_error:
  assumes "rt_load r mp cfg (fst (use_cuda_and_available r c wd)) = Inl (PyException e)"
  shows "fst (try_load r n mp cfg c wd) = Inr (None, ''Load error: '' @ e)"
proof (cases "use_cuda_and_available r c wd")
  case (Pair g1 wd1)
  with assms show ?thesis by (simp add: try_load_def)
qed

lemma load_failure_result:
  assumes "n \<noteq> ''No models''"
    and "get_config_path (path_div (MODELS_DIR r) n) = Inr cfg"
    and "(rt_exists r (str_path (path_div (MODELS_DIR r) n)) = Inr False \<and>
          msg = ''Model not found: '' @ n) \<or>
         (rt_exists r (str_path (path_div (MODELS_DIR r) n)) = Inr True \<and>
          rt_exists r (str_path cfg) = Inr False \<and>
          msg = ''Missing config: '' @ pp_name cfg) \<or>
         (rt_exists r (str_path (path_div (MODELS_DIR r) n)) = Inr True \<and>
          rt_exists r (str_path cfg) = Inr True \<and>
          rt_load r (str_path (path_div (MODELS_DIR r) n)) (str_path cfg)
            (fst (use_cuda_and_available r c wd)) = Inl (PyException e) \<and>
          msg = ''Load error: '' @ e)"
  shows "fst (load_voice_model r n c wd) = Inr (None, msg)"
  using assms
  by (auto simp: load_voice_model_def path_exists_def Let_def cuda_flag_trace try_load_error)

text \<open>
  Claim C2, as the code has it. The model name has a final component, so that the path
  of its configuration exists as a path. A load that fails because the model file is
  missing, its configuration is missing, or the loader raises an \<^verbatim>\<open>Exception\<close>, reports
  its failure message as the status, and the current voice becomes None, whatever voice
  was loaded before.
\<close>

theorem failed_load_clears_voice:
  assumes "n \<noteq> ''No models''"
    and "get_config_path (path_div (MODELS_DIR (rt env)) n) = Inr cfg"
    and "(rt_exists (rt env) (str_path (path_div (MODELS_DIR (rt env)) n)) = Inr False \<and>
          msg = ''Model not found: '' @ n) \<or>
         (rt_exists (rt env) (str_path (path_div (MODELS_DIR (rt env)) n)) = Inr True \<and>
          rt_exists (rt env) (str_path cfg) = Inr False \<and>
          msg = ''Missing config: '' @ pp_name cfg) \<or>
         (rt_exists (rt env) (str_path (path_div (MODELS_DIR (rt env)) n)) = Inr True \<and>
          rt_exists (rt env) (str_path cfg) = Inr True \<and>
          rt_load (rt env) (str_path (path_div (MODELS_DIR (rt env)) n)) (str_path cfg)
            (fst (use_cuda_and_available (rt env) (use_cuda w) (wld s))) = Inl (PyException e) \<and>
          msg = ''Load error: '' @ e)"
  shows "voice (win (complete_all env (snd (on_model_changed n w)) s)) = None \<and>
         status_label (win (complete_all env (snd (on_model_changed n w)) s)) = msg \<and>
         log_text (win (complete_all env (snd (on_model_changed n w)) s)) = log_text (win s) @ [msg]"
proof -
  have r: "fst (load_voice_model (rt env) n (use_cuda w) (wld s)) = Inr (None, msg)"
    using assms by (rule load_failure_result)
  have "win (complete_all env (snd (on_model_changed n w)) s) = on_model_loaded (None, msg) (win s)"
    using r by (simp add: on_model_changed_spawn load_thread_done_win del: thread_done.simps)
  then show ?thesis by (simp add: on_model_loaded_def set_status_def)
qed

text \<open>
  Claim C2 as stated fails: the example window holds voice 1; after the failed load of a
  model that does not exist the window holds no voice.
\<close>

theorem failed_load_drops_previous_voice:
  "voice (win demo_sys) = Some 1 \<and>
   voice (win (complete_all demo_env (snd (on_model_changed ''missing.onnx'' (win demo_sys))) demo_sys)) = None \<and>
   status_label (win (complete_all demo_env (snd (on_model_changed ''missing.onnx'' (win demo_sys))) demo_sys))
     = ''Model not found: missing.onnx''"
proof -
  have r: "fst (load_voice_model demo_rt ''missing.onnx'' c wd) = Inr (None, ''Model not found: missing.onnx'')" for c wd
    by (simp add: load_voice_model_def MODELS_DIR_def demo_rt_def demo_model_paths
        demo_config_paths path_exists_def Let_def)
  have "win (complete_all demo_env (snd (on_model_changed ''missing.onnx'' (win demo_sys))) demo_sys)
          = on_model_loaded (None, ''Model not found: missing.onnx'') (win demo_sys)"
    using r by (simp add: on_model_changed_spawn load_thread_done_win demo_env_rt del: thread_done.simps)
  then show ?thesis by (simp add: on_model_loaded_def set_status_def demo_sys_def idle_window_def)
qed

theorem failed_load_clears_voice_witness:
  "voice (win (complete_all demo_env (snd (on_model_changed ''c.onnx'' idle_window)) demo_sys)) = None \<and>
   status_label (win (complete_all demo_env (snd (on_model_changed ''c.onnx'' idle_window)) demo_sys))
     = ''Model not found: c.onnx'' \<and>
   log_text (win (complete_all demo_env (snd (on_model_changed ''c.onnx'' idle_window)) demo_sys))
     = log_text (win demo_sys) @ [''Model not found: c.onnx'']"
proof -
  have a: "''c.onnx'' \<noteq> ''No models''" by simp
  have c: "get_config_path (path_div (MODELS_DIR (rt demo_env)) ''c.onnx'')
             = Inr \<lparr>pp_root = [], pp_parts = [''models'', ''c.onnx.json'']\<rparr>"
    by (simp add: demo_env_def demo_rt_def MODELS_DIR_def demo_config_paths)
  have b: "rt_exists (rt demo_env) (str_path (path_div (MODELS_DIR (rt demo_env)) ''c.onnx'')) = Inr False"
    by (simp add: demo_env_def demo_rt_def MODELS_DIR_def demo_model_paths)
  from failed_load_clears_voice [OF a c, of "''Model not found: c.onnx''" idle_window demo_sys] b
  show ?thesis by simp
qed

subsection \<open>Pressing the play button twice\<close>

lemma play_audio_idle_window:
  "play_audio (idle_window\<lparr>workers := ws, status_label := l, log_text := lg, play_btn := b\<rparr>) =
     ((idle_window\<lparr>workers := ws @ [WorkerSignals_init\<lparr>status := [Set_status], finished := [On_playback_complete]\<rparr>],
         status_label := ''Synthesizing...'', log_text := lg @ [''Synthesizing...''], play_btn := ''Stop''\<rparr>),
      [Spawn (PlayTask 1 ''hi'' 1 1 (66/100) (80/100) False)
         (WorkerSignals_init\<lparr>status := [Set_status], finished := [On_playback_complete]\<rparr>)])"
  by (simp add: play_audio_def idle_window_def strip_def py_isspace_def set_status_def Let_def
      slider_value_def)

text \<open>
  Claim C3 at its failing input. On the example window the play/stop button is pressed
  twice. The first press is accepted: a playback thread is started and the button reads
  \<^verbatim>\<open>Stop\<close>, but the player is not yet marked as playing (the thread sets the flag only
  after synthesis). So the second press is accepted as well and starts a second thread;
  both threads then call \<^verbatim>\<open>sd.play\<close>, with no stop in between.
\<close>

theorem second_play_accepted_while_starting:
  "(let (w1, e1) = play_stop idle_window;
        (w2, e2) = play_stop w1;
        (ph1, ap1, c1) = play_worker_start demo_audio 1 ''hi'' 1 1 (66/100) (80/100) False (audio_player w2);
        (ph2, ap2, c2) = play_worker_start demo_audio 1 ''hi'' 1 1 (66/100) (80/100) False ap1
    in e1 = [Spawn (PlayTask 1 ''hi'' 1 1 (66/100) (80/100) False)
               (WorkerSignals_init\<lparr>status := [Set_status], finished := [On_playback_complete]\<rparr>)] \<and>
       play_btn w1 = ''Stop'' \<and> is_playing (audio_player w1) = False \<and>
       e2 = e1 \<and>
       ph1 = Waiting \<and> ph2 = Waiting \<and>
       c1 @ c2 = [SdPlay [1, 2] 22050, SdPlay [1, 2] 22050])"
proof -
  have i: "play_stop (idle_window\<lparr>workers := ws, status_label := l, log_text := lg, play_btn := b\<rparr>)
         = play_audio (idle_window\<lparr>workers := ws, status_label := l, log_text := lg, play_btn := b\<rparr>)" for ws l lg b
    by (simp add: play_stop_def is_playing_def idle_window_def AudioPlayer_init_def)
  have 0: "idle_window = idle_window\<lparr>workers := [], status_label := ''Ready'', log_text := [], play_btn := ''Play''\<rparr>"
    by (simp add: idle_window_def)
  have p: "play_worker_start demo_audio 1 ''hi'' 1 1 (66/100) (80/100) False ap
            = (Waiting, ap\<lparr>playing := True, stopped := False\<rparr>, [SdPlay [1, 2] 22050])" for ap
    by (simp add: play_worker_start_def synthesize_to_audio_array_def demo_audio_def demo_read play_def)
  have a: "is_playing (audio_player idle_window) = False"
    by (simp add: is_playing_def idle_window_def AudioPlayer_init_def)
  show ?thesis
    apply (subst 0)
    apply (simp only: i play_audio_idle_window Let_def prod.case p)
    apply (simp add: a)
    done
qed

subsection \<open>An exception in the body of a load thread\<close>

text \<open>
  Claim C4 at its failing input. \<^verbatim>\<open>Path.exists\<close> raises inside the body of the load
  thread. \<open>run_worker\<close> emits the \<open>error\<close> signal only, which has no slot connected:
  no terminal result is delivered and the window is left as the thread found it. The
  \<open>run_worker\<close> of playback, for the same exception, also emits \<open>finished\<close> and
  delivers one terminal result.
\<close>

theorem load_exception_delivers_nothing:
  "(case snd (on_model_changed ''a.onnx'' idle_window) of
      [Spawn t sg] \<Rightarrow>
        (let (ems, s') = thread_body denied_env t demo_sys
         in ems = [(Error, Str ''[Errno 13] Permission denied'')] \<and>
            terminal_deliveries sg ems = 0 \<and>
            fst (thread_done denied_env (Spawn t sg) demo_sys) = s')
    | _ \<Rightarrow> False) \<and>
   (case snd (play_audio idle_window) of
      [Spawn t sg] \<Rightarrow>
        terminal_deliveries sg (play_run_worker (Inl (PyException ''[Errno 13] Permission denied''))) = 1
    | _ \<Rightarrow> False)"
proof -
  have l: "load_voice_model (rt denied_env) ''a.onnx'' False wd =
        (Inl (PyException ''[Errno 13] Permission denied''),
         wd\<lparr>io_trace := io_trace wd @ [PathExists ''models/a.onnx'']\<rparr>)" for wd
    by (simp add: load_voice_model_def denied_env_def demo_env_def demo_rt_def path_exists_def
        MODELS_DIR_def demo_model_paths demo_config_paths Let_def)
  have u: "use_cuda idle_window = False" by (simp add: idle_window_def)
  have 0: "idle_window = idle_window\<lparr>workers := [], status_label := ''Ready'', log_text := [], play_btn := ''Play''\<rparr>"
    by (simp add: idle_window_def)
  have 1: "(case snd (on_model_changed ''a.onnx'' idle_window) of
      [Spawn t sg] \<Rightarrow>
        (let (ems, s') = thread_body denied_env t demo_sys
         in ems = [(Error, Str ''[Errno 13] Permission denied'')] \<and>
            terminal_deliveries sg ems = 0 \<and>
            fst (thread_done denied_env (Spawn t sg) demo_sys) = s')
    | _ \<Rightarrow> False)"
    by (simp add: on_model_changed_spawn u l run_worker_def terminal_deliveries_def slots_of_def
        WorkerSignals_init_def)
  have 2: "(case snd (play_audio idle_window) of
      [Spawn t sg] \<Rightarrow>
        terminal_deliveries sg (play_run_worker (Inl (PyException ''[Errno 13] Permission denied''))) = 1
    | _ \<Rightarrow> False)"
    apply (subst 0)
    apply (simp only: play_audio_idle_window)
    apply (simp add: play_run_worker_def terminal_deliveries_def slots_of_def WorkerSignals_init_def)
    done
  from 1 2 show ?thesis by simp
qed

subsection \<open>Exporting a WAV file\<close>









subsection \<open>Parameters are captured at submission\<close>

lemma audio_player_apply_change: "audio_player (apply_change c w) = audio_player w"
  by (cases c) simp_all

lemma audio_player_changes: "audio_player (fold apply_change cs w) = audio_player w"
  by (induction cs arbitrary: w) (simp_all add: audio_player_apply_change)

lemma task_output_window:
  assumes "audio_player w' = audio_player (win s)"
  shows "task_output env t (s\<lparr>win := w'\<rparr>) = task_output env t s"
proof (cases t)
  case (LoadTask n c)
  then show ?thesis by (simp add: task_output_def split: prod.splits)
next
  case (DownloadTask i)
  then show ?thesis by (simp add: task_output_def split: prod.splits)
next
  case (ExportTask v tx p vol spd nse nw nrm)
  then show ?thesis by (simp add: task_output_def split: prod.splits)
next
  case (PlayTask v tx vol spd nse nw nrm)
  then show ?thesis using assms
    by (simp add: task_output_def split: prod.splits play_phase.splits)
qed

lemma submitted_params:
  assumes "h = export_wav d \<or> h = play_audio" and "Spawn t sg \<in> set (snd (h w))"
  shows "task_params t = Some (slider_value (volume w), slider_value (speed w),
            slider_value (noise w), slider_value (noise_w w), normalize_chk w)"
  using assms
  by (auto simp: export_wav_def play_audio_def Let_def set_status_def
      split: option.splits if_splits)

text \<open>
  Claim C8. A thread started by \<open>export_wav\<close> or \<open>play_audio\<close> carries the values the
  sliders and the check box had when the handler ran. For any two runs that differ only
  in what the user changes in the window afterwards (sliders, check box, text), the
  thread emits the same signals, writes the same files and sends the same device
  commands.
\<close>

theorem params_captured_at_submission:
  assumes "h = export_wav d \<or> h = play_audio"
    and "handle h s = (s1, effs)"
    and "Spawn t sg \<in> set effs"
  shows "task_output env t (s1\<lparr>win := fold apply_change cs (win s1)\<rparr>) =
           task_output env t (s1\<lparr>win := fold apply_change cs' (win s1)\<rparr>) \<and>
         task_params t = Some (slider_value (volume (win s)), slider_value (speed (win s)),
            slider_value (noise (win s)), slider_value (noise_w (win s)), normalize_chk (win s))"
proof
  have "task_output env t (s1\<lparr>win := fold apply_change xs (win s1)\<rparr>) = task_output env t s1" for xs
    by (rule task_output_window) (rule audio_player_changes)
  then show "task_output env t (s1\<lparr>win := fold apply_change cs (win s1)\<rparr>) =
               task_output env t (s1\<lparr>win := fold apply_change cs' (win s1)\<rparr>)"
    by simp
  from assms(2) have "effs = snd (h (win s))"
    by (auto simp: handle_def split: prod.splits)
  with assms(1,3) show "task_params t = Some (slider_value (volume (win s)), slider_value (speed (win s)),
            slider_value (noise (win s)), slider_value (noise_w (win s)), normalize_chk (win s))"
    by (intro submitted_params [of h d t sg]) simp_all
qed

lemma play_audio_demo:
  "snd (handle play_audio demo_sys) =
     [Spawn (PlayTask 1 ''hi'' 1 1 (66/100) (80/100) False)
        (WorkerSignals_init\<lparr>status := [Set_status], finished := [On_playback_complete]\<rparr>)]"
  by (simp add: handle_def demo_sys_def play_audio_def idle_window_def strip_def py_isspace_def
      set_status_def Let_def slider_value_def)

theorem params_captured_at_submission_witness:
  "Spawn (PlayTask 1 ''hi'' 1 1 (66/100) (80/100) False)
        (WorkerSignals_init\<lparr>status := [Set_status], finished := [On_playback_complete]\<rparr>)
     \<in> set (snd (handle play_audio demo_sys)) \<and>
   task_output demo_env (PlayTask 1 ''hi'' 1 1 (66/100) (80/100) False)
     ((fst (handle play_audio demo_sys))
        \<lparr>win := fold apply_change [MoveVolume 10, CheckNormalize True, EditText ''bye'']
                  (win (fst (handle play_audio demo_sys)))\<rparr>)
     = task_output demo_env (PlayTask 1 ''hi'' 1 1 (66/100) (80/100) False)
         ((fst (handle play_audio demo_sys))
            \<lparr>win := fold apply_change [] (win (fst (handle play_audio demo_sys)))\<rparr>) \<and>
   task_params (PlayTask (1::nat) ''hi'' 1 1 (66/100) (80/100) False)
     = Some (slider_value (volume (win demo_sys)), slider_value (speed (win demo_sys)),
             slider_value (noise (win demo_sys)), slider_value (noise_w (win demo_sys)),
             normalize_chk (win demo_sys))"
proof -
  have a: "play_audio = export_wav [] \<or> (play_audio :: nat MainWindow \<Rightarrow> _) = play_audio" by simp
  have b: "handle play_audio demo_sys = (fst (handle play_audio demo_sys), snd (handle play_audio demo_sys))"
    by simp
  have c: "Spawn (PlayTask 1 ''hi'' 1 1 (66/100) (80/100) False)
        (WorkerSignals_init\<lparr>status := [Set_status], finished := [On_playback_complete]\<rparr>)
     \<in> set (snd (handle play_audio demo_sys))"
    by (simp add: play_audio_demo)
  from c params_captured_at_submission [OF a b c, of demo_env
      "[MoveVolume 10, CheckNormalize True, EditText ''bye'']" "[]"]
  show ?thesis by (simp only: simp_thms)
qed

subsection \<open>What the threads deliver on their other paths\<close>

text \<open>
  A thread of any of the four kinds whose body returns delivers one terminal result, and
  so does a playback thread whose body raises an \<^verbatim>\<open>Exception\<close>.
\<close>

lemma spawned_signals:
  assumes "Spawn t sg \<in> set (snd (on_model_changed n w)) \<or>
           Spawn t sg \<in> set (snd (download_voice dlg w)) \<or>
           Spawn t sg \<in> set (snd (export_wav d w))"
  shows "finished sg \<noteq> [] \<and> length (finished sg) = 1 \<and> error sg = [] \<and> status sg = []"
  using assms
  by (auto simp: on_model_changed_def download_voice_def export_wav_def Let_def
      WorkerSignals_init_def split: option.splits if_splits prod.splits)

lemma returned_body_delivers_once:
  assumes "Spawn t sg \<in> set (snd (on_model_changed n w)) \<or>
           Spawn t sg \<in> set (snd (download_voice dlg w)) \<or>
           Spawn t sg \<in> set (snd (export_wav d w))"
  shows "terminal_deliveries sg (run_worker (Inr r)) = 1"
  using spawned_signals [OF assms]
  by (simp add: terminal_deliveries_def run_worker_def slots_of_def)

lemma raised_body_delivers_nothing:
  assumes "Spawn t sg \<in> set (snd (on_model_changed n w)) \<or>
           Spawn t sg \<in> set (snd (download_voice dlg w)) \<or>
           Spawn t sg \<in> set (snd (export_wav d w))"
  shows "terminal_deliveries sg (run_worker (Inl x)) = 0"
  using spawned_signals [OF assms]
  by (simp add: terminal_deliveries_def run_worker_def slots_of_def split: py_exception.splits)

lemma playback_delivers_once:
  assumes "Spawn t sg \<in> set (snd (play_audio w))"
  shows "terminal_deliveries sg (play_run_worker (Inr r)) = 1 \<and>
         terminal_deliveries sg (play_run_worker (Inl (PyException e))) = 1"
  using assms
  by (auto simp: play_audio_def Let_def WorkerSignals_init_def terminal_deliveries_def
      play_run_worker_def slots_of_def split: option.splits if_splits)

text \<open>
  While the player is marked as playing, the play/stop button stops playback and starts
  no thread.
\<close>

lemma play_stop_while_playing:
  assumes "is_playing (audio_player w)"
  shows "snd (play_stop w) = [Device SdStop] \<and>
         \<not> is_playing (audio_player (fst (play_stop w)))"
  using assms
  by (simp add: play_stop_def stop_playback_def stop_def is_playing_def set_status_def)

end
